theory Spec2Isabelle
  imports Main "HOL-Library.Multiset"
begin

section \<open>JavaScript values\<close>

text \<open>
  The values the two scripts handle. An object is the list of its own enumerable
  string-keyed properties in the order JavaScript enumerates them; a real object has
  each key once (\<open>distinct (map fst kvs)\<close>) and the keys used here are not array
  indices, so enumeration order is insertion order. Objects are plain data objects:
  no key shadows a method of \<open>Object.prototype\<close> (\<open>toString\<close>, \<open>valueOf\<close>). Numbers are
  the integers JavaScript represents exactly (the widget's option index), of magnitude
  below \<open>2 ^ 53\<close>.
\<close>

datatype jsval =
    Undefined
  | Null
  | Bool bool
  | Num int
  | Str string
  | Arr "jsval list"
  | Obj "(string \<times> jsval) list"

text \<open>What a \<open>throw\<close> carries: the engine's own TypeError, or whatever a callback throws.\<close>

datatype jserror = TypeError | Thrown jsval

text \<open>
  A function value called for its effect: it receives the argument list and the state
  it may change, and either throws or returns the changed state.
\<close>

type_synonym 'w callback = "jsval list \<Rightarrow> 'w \<Rightarrow> jserror + 'w"

text \<open>The \<open>i\<close>-th formal parameter of a call: \<open>undefined\<close> when fewer arguments were passed.\<close>

definition arg :: "nat \<Rightarrow> jsval list \<Rightarrow> jsval" where
  "arg i args = (if i < length args then args ! i else Undefined)"

text \<open>The truthiness test of \<open>if (v)\<close> and \<open>v || w\<close>.\<close>

fun truthy :: "jsval \<Rightarrow> bool" where
  "truthy Undefined = False"
| "truthy Null = False"
| "truthy (Bool b) = b"
| "truthy (Num n) = (n \<noteq> 0)"
| "truthy (Str s) = (s \<noteq> [])"
| "truthy (Arr xs) = True"
| "truthy (Obj kvs) = True"

definition js_or :: "jsval \<Rightarrow> jsval \<Rightarrow> jsval" where
  "js_or a b = (if truthy a then a else b)"

text \<open>Reading \<open>o[k]\<close> on an object's property list: \<open>undefined\<close> when the key is absent.\<close>

definition obj_get :: "(string \<times> jsval) list \<Rightarrow> string \<Rightarrow> jsval" where
  "obj_get kvs k = (case map_of kvs k of None \<Rightarrow> Undefined | Some v \<Rightarrow> v)"

text \<open>
  The assignment \<open>o[k] = v\<close>: an existing key keeps its place, a new key goes last.
\<close>

fun obj_set :: "(string \<times> jsval) list \<Rightarrow> string \<Rightarrow> jsval \<Rightarrow> (string \<times> jsval) list" where
  "obj_set [] k v = [(k, v)]"
| "obj_set ((k', v') # kvs) k v =
     (if k' = k then (k, v) # kvs else (k', v') # obj_set kvs k v)"

text \<open>
  The property read \<open>v.k\<close> for the names this code reads (\<open>address\<close>, \<open>name\<close>): a
  TypeError on \<open>undefined\<close> and \<open>null\<close>, the own property of an object, and
  \<open>undefined\<close> on a primitive or an array, whose prototypes carry neither name.
\<close>

fun js_get :: "jsval \<Rightarrow> string \<Rightarrow> jserror + jsval" where
  "js_get Undefined k = Inl TypeError"
| "js_get Null k = Inl TypeError"
| "js_get (Obj kvs) k = Inr (obj_get kvs k)"
| "js_get v k = Inr Undefined"

text \<open>
  \<open>Object.values(v)\<close>: a TypeError on \<open>undefined\<close> and \<open>null\<close>; the property values of
  an object in enumeration order; the elements of an array; the characters of a
  string; nothing for a boolean or a number.
\<close>

fun Object_values :: "jsval \<Rightarrow> jserror + jsval list" where
  "Object_values Undefined = Inl TypeError"
| "Object_values Null = Inl TypeError"
| "Object_values (Obj kvs) = Inr (map snd kvs)"
| "Object_values (Arr xs) = Inr xs"
| "Object_values (Str s) = Inr (map (\<lambda>c. Str [c]) s)"
| "Object_values (Bool b) = Inr []"
| "Object_values (Num n) = Inr []"

text \<open>
  The decimal digits of a natural number, as the string conversion of a number writes
  them.
\<close>

function digits :: "nat \<Rightarrow> string" where
  "digits n =
     (if n < 10 then [''0123456789'' ! n]
      else digits (n div 10) @ [''0123456789'' ! (n mod 10)])"
  by pat_completeness auto
termination
  by (relation "measure id") auto

text \<open>
  The string conversion \<open>'' + v\<close>: the names of \<open>undefined\<close>, \<open>null\<close> and the booleans,
  the decimal digits of a number, a string itself, the elements of an array joined by
  commas (\<open>undefined\<close> and \<open>null\<close> elements as the empty string), and
  \<open>[object Object]\<close> for a plain object.
\<close>

fun to_string :: "jsval \<Rightarrow> string" and Array_join :: "jsval list \<Rightarrow> string" where
  "to_string Undefined = ''undefined''"
| "to_string Null = ''null''"
| "to_string (Bool b) = (if b then ''true'' else ''false'')"
| "to_string (Num n) = (if n < 0 then CHR ''-'' # digits (nat (- n)) else digits (nat n))"
| "to_string (Str s) = s"
| "to_string (Arr xs) = Array_join xs"
| "to_string (Obj kvs) = ''[object Object]''"
| "Array_join [] = []"
| "Array_join [x] = (if x = Undefined \<or> x = Null then [] else to_string x)"
| "Array_join (x # y # ys) =
     (if x = Undefined \<or> x = Null then [] else to_string x) @ '','' @ Array_join (y # ys)"


text \<open>Sequencing of computations that may throw.\<close>

definition bind :: "jserror + 'a \<Rightarrow> ('a \<Rightarrow> jserror + 'b) \<Rightarrow> jserror + 'b" where
  "bind m f = (case m of Inl e \<Rightarrow> Inl e | Inr x \<Rightarrow> f x)"

text \<open>
  \<open>xs.map(f)\<close>: \<open>f\<close> is applied to the elements from left to right and the first
  throw ends the call.
\<close>

fun Array_map :: "('a \<Rightarrow> jserror + 'b) \<Rightarrow> 'a list \<Rightarrow> jserror + 'b list" where
  "Array_map f [] = Inr []"
| "Array_map f (x # xs) = bind (f x) (\<lambda>y. bind (Array_map f xs) (\<lambda>ys. Inr (y # ys)))"

section \<open>The implementors index (trait.MayPanic.js)\<close>

text \<open>
  The script fills a fresh object, one assignment per crate, with the lists of HTML
  fragments.
\<close>

definition implementors :: "(string \<times> jsval) list" where
  "implementors =
     obj_set (obj_set (obj_set (obj_set (obj_set []
       ''ethcore_network'' (Arr
         [Str ''impl MayPanic for <a class='struct' href='ethcore_network/struct.NetworkService.html' title='ethcore_network::NetworkService'>NetworkService</a>'']))
       ''ethcore'' (Arr
         [Str ''impl <a class='trait' href='ethcore_io/panics/trait.MayPanic.html' title='ethcore_io::panics::MayPanic'>MayPanic</a> for <a class='struct' href='ethcore/client/struct.Client.html' title='ethcore::client::Client'>Client</a>'',
          Str ''impl <a class='trait' href='ethcore_io/panics/trait.MayPanic.html' title='ethcore_io::panics::MayPanic'>MayPanic</a> for <a class='struct' href='ethcore/service/struct.ClientService.html' title='ethcore::service::ClientService'>ClientService</a>'']))
       ''ethsync'' (Arr
         [Str ''impl <a class='trait' href='ethcore_io/panics/trait.MayPanic.html' title='ethcore_io::panics::MayPanic'>MayPanic</a> for <a class='struct' href='ethcore_network/service/struct.NetworkService.html' title='ethcore_network::service::NetworkService'>NetworkService</a>'']))
       ''ethcore_signer'' (Arr
         [Str ''impl <a class='trait' href='ethcore_io/panics/trait.MayPanic.html' title='ethcore_io::panics::MayPanic'>MayPanic</a> for <a class='struct' href='ethcore_signer/struct.Server.html' title='ethcore_signer::Server'>Server</a>'']))
       ''parity'' (Arr
         [Str ''impl <a class='trait' href='ethcore_io/panics/trait.MayPanic.html' title='ethcore_io::panics::MayPanic'>MayPanic</a> for <a class='struct' href='ethcore_signer/ws_server/struct.Server.html' title='ethcore_signer::ws_server::Server'>Server</a>'',
          Str ''impl <a class='trait' href='ethcore_io/panics/trait.MayPanic.html' title='ethcore_io::panics::MayPanic'>MayPanic</a> for <a class='struct' href='ethcore/client/client/struct.Client.html' title='ethcore::client::client::Client'>Client</a>'',
          Str ''impl <a class='trait' href='ethcore_io/panics/trait.MayPanic.html' title='ethcore_io::panics::MayPanic'>MayPanic</a> for <a class='struct' href='ethcore/service/struct.ClientService.html' title='ethcore::service::ClientService'>ClientService</a>''])"

text \<open>
  The part of \<open>window\<close> the script and the registration callback work on: the
  \<open>pending_implementors\<close> property, and \<open>document\<close> for everything else a callback may
  change (its type is left open).
\<close>

record 'd globals =
  pending_implementors :: jsval
  document :: 'd

text \<open>
  What \<open>window.register_implementors\<close> holds when the script runs: a function of the
  documentation browser, or any other value (\<open>undefined\<close> while that script has not
  run yet).
\<close>

datatype 'd binding = Value jsval | Function "'d globals callback"

record 'd window =
  register_implementors :: "'d binding"
  globals :: "'d globals"

fun truthy_binding :: "'d binding \<Rightarrow> bool" where
  "truthy_binding (Value v) = truthy v"
| "truthy_binding (Function f) = True"

text \<open>Calling what a binding holds: only a function can be called.\<close>

fun call :: "'d binding \<Rightarrow> 'd globals callback" where
  "call (Function f) args g = f args g"
| "call (Value v) args g = Inl TypeError"

text \<open>
  The body of the script after the index is built:
  \<^verbatim>\<open>if (window.register_implementors) { window.register_implementors(implementors); }
  else { window.pending_implementors = implementors; }\<close>
\<close>

definition trait_MayPanic_js :: "'d window \<Rightarrow> jserror + 'd window" where
  "trait_MayPanic_js w =
     (if truthy_binding (register_implementors w)
      then bind (call (register_implementors w) [Obj implementors] (globals w))
             (\<lambda>g. Inr (w\<lparr>globals := g\<rparr>))
      else Inr (w\<lparr>globals := (globals w)\<lparr>pending_implementors := Obj implementors\<rparr>\<rparr>))"

section \<open>The AddressSelect component\<close>

text \<open>
  A React element as \<open>React.createElement\<close> returns it for a JSX expression: its type,
  its key (a string, or none), the other attributes, and the children. An attribute or
  a child is itself an element, a plain value or a function.
\<close>

datatype component = Div | IdentityIcon | Select | MenuItem

datatype 'w node =
    Expr jsval
  | Handler "'w callback"
  | Element component "string option" "(string \<times> 'w node) list" "'w node list"

text \<open>
  The key of an element written with \<open>key={ v }\<close>: React keeps \<open>'' + v\<close>, and no key
  when \<open>v\<close> is \<open>undefined\<close>.
\<close>

fun element_key :: "jsval \<Rightarrow> string option" where
  "element_key Undefined = None"
| "element_key v = Some (to_string v)"

fun component_of :: "'w node \<Rightarrow> component option" where
  "component_of (Element c k ps ch) = Some c"
| "component_of n = None"

fun key_of :: "'w node \<Rightarrow> string option" where
  "key_of (Element c k ps ch) = k"
| "key_of n = None"

fun prop_of :: "'w node \<Rightarrow> string \<Rightarrow> 'w node option" where
  "prop_of (Element c k ps ch) a = map_of ps a"
| "prop_of n a = None"

fun children_of :: "'w node \<Rightarrow> 'w node list" where
  "children_of (Element c k ps ch) = ch"
| "children_of n = []"




text \<open>
  \<open>this.props\<close>. React does not enforce the declared types, so each prop is any value
  (\<open>undefined\<close> when omitted); \<open>onChange_prop\<close> is \<open>props.onChange\<close>, \<open>None\<close> when it
  is not a function.
\<close>

record 'w props =
  disabled :: jsval
  accounts :: jsval
  label :: jsval
  hint :: jsval
  error :: jsval
  "value" :: jsval
  onChange_prop :: "'w callback option"

text \<open>
  \<^verbatim>\<open>onChange = (event, idx, value) => { this.props.onChange(event, value); }\<close>
\<close>

definition onChange :: "'w props \<Rightarrow> 'w callback" where
  "onChange p args w =
     (let event = arg 0 args; idx = arg 1 args; v = arg 2 args
      in case onChange_prop p of
           None \<Rightarrow> Inl TypeError
         | Some f \<Rightarrow> f [event, v] w)"

text \<open>
  \<open>renderAccountItem\<close>. The class names come from the imported style sheet
  \<open>addressSelect.css\<close>, which is not part of the sources: \<open>styles\<close> is the object the
  import yields.
\<close>

definition renderAccountItem :: "(string \<times> jsval) list \<Rightarrow> jsval \<Rightarrow> jserror + 'w node" where
  "renderAccountItem styles account =
     bind (js_get account ''address'') (\<lambda>icon_address.
     bind (js_get account ''name'') (\<lambda>name.
       let item =
         Element Div None [(''className'', Expr (obj_get styles ''account''))]
           [Element Div None [(''className'', Expr (obj_get styles ''image''))]
              [Element IdentityIcon None
                 [(''inline'', Expr (Bool True)),
                  (''center'', Expr (Bool True)),
                  (''address'', Expr icon_address)] []],
            Element Div None [(''className'', Expr (obj_get styles ''details''))]
              [Element Div None [(''className'', Expr (obj_get styles ''name''))]
                 [Expr (js_or name (Str ''Unnamed''))]]]
       in
     bind (js_get account ''address'') (\<lambda>key_address.
     bind (js_get account ''address'') (\<lambda>value_address.
       Inr (Element MenuItem (element_key key_address)
              [(''value'', Expr value_address), (''label'', item)]
              [item])))))"

text \<open>
  \<^verbatim>\<open>renderSelectAccounts () { return Object.values(accounts).map(this.renderAccountItem); }\<close>
  Of the arguments \<open>map\<close> passes (element, index, array), \<open>renderAccountItem\<close> takes the
  first.
\<close>

definition renderSelectAccounts :: "(string \<times> jsval) list \<Rightarrow> 'w props \<Rightarrow> jserror + 'w node list" where
  "renderSelectAccounts styles p =
     bind (Object_values (accounts p)) (Array_map (renderAccountItem styles))"

text \<open>\<open>render\<close>: the props are passed on to \<open>Select\<close>, the options are its children.\<close>

definition render :: "(string \<times> jsval) list \<Rightarrow> 'w props \<Rightarrow> jserror + 'w node" where
  "render styles p =
     bind (renderSelectAccounts styles p) (\<lambda>options.
       Inr (Element Select None
              [(''disabled'', Expr (disabled p)),
               (''label'', Expr (label p)),
               (''hint'', Expr (hint p)),
               (''error'', Expr (error p)),
               (''value'', Expr (value p)),
               (''onChange'', Handler (onChange p))]
              options))"

section \<open>Auxiliary facts\<close>

lemma bind_Inr [simp]: "bind (Inr x) f = f x"
  by (simp add: bind_def)

lemma bind_Inl [simp]: "bind (Inl e) f = Inl e"
  by (simp add: bind_def)


lemma Array_map_length:
  "Array_map f xs = Inr ys \<Longrightarrow> length ys = length xs"
proof (induction xs arbitrary: ys)
  case Nil
  then show ?case by simp
next
  case (Cons x xs)
  then show ?case
    by (auto simp: bind_def split: sum.splits)
qed


lemma renderAccountItem_record:
  "renderAccountItem st (Obj fs) =
     Inr (Element MenuItem (element_key (obj_get fs ''address''))
            [(''value'', Expr (obj_get fs ''address'')),
             (''label'',
              Element Div None [(''className'', Expr (obj_get st ''account''))]
                [Element Div None [(''className'', Expr (obj_get st ''image''))]
                   [Element IdentityIcon None
                      [(''inline'', Expr (Bool True)),
                       (''center'', Expr (Bool True)),
                       (''address'', Expr (obj_get fs ''address''))] []],
                 Element Div None [(''className'', Expr (obj_get st ''details''))]
                   [Element Div None [(''className'', Expr (obj_get st ''name''))]
                      [Expr (js_or (obj_get fs ''name'') (Str ''Unnamed''))]]])]
            [Element Div None [(''className'', Expr (obj_get st ''account''))]
                [Element Div None [(''className'', Expr (obj_get st ''image''))]
                   [Element IdentityIcon None
                      [(''inline'', Expr (Bool True)),
                       (''center'', Expr (Bool True)),
                       (''address'', Expr (obj_get fs ''address''))] []],
                 Element Div None [(''className'', Expr (obj_get st ''details''))]
                   [Element Div None [(''className'', Expr (obj_get st ''name''))]
                      [Expr (js_or (obj_get fs ''name'') (Str ''Unnamed''))]]]])"
  by (simp add: renderAccountItem_def Let_def)






lemma implementors_keys:
  "map fst implementors = [''ethcore_network'', ''ethcore'', ''ethsync'', ''ethcore_signer'', ''parity'']"
  by (simp add: implementors_def)



lemma element_key_examples:
  "element_key (Str ''0xAAA'') = Some ''0xAAA''"
  "element_key (Num 5) = Some ''5''"
  "element_key (Num (- 120)) = Some ''-120''"
  "element_key Undefined = None"
  "element_key Null = Some ''null''"
  "element_key (Arr [Num 1, Null, Str ''a'']) = Some ''1,,a''"
  by simp_all

section \<open>The change handler\<close>

text \<open>
  C1. When the dropdown widget reports a change as the triple (event, index, value),
  the component's handler calls the caller's \<open>onChange\<close> once, with the two arguments
  (event, value): the outcome of the handler is the outcome of that one call on the
  incoming state, the index is not passed and the value is passed as it came. The
  handler is the function \<open>render\<close> hands to the widget as its \<open>onChange\<close> attribute.
\<close>

theorem onChange_forwards_event_and_value:
  assumes "onChange_prop p = Some f"
  shows "onChange p [event, idx, v] w = f [event, v] w
       \<and> (\<forall>sel. render st p = Inr sel \<longrightarrow>
            prop_of sel ''onChange'' = Some (Handler (onChange p)))"
proof
  from assms show "onChange p [event, idx, v] w = f [event, v] w"
    by (simp add: onChange_def arg_def)
next
  show "\<forall>sel. render st p = Inr sel \<longrightarrow>
          prop_of sel ''onChange'' = Some (Handler (onChange p))"
    by (auto simp add: render_def bind_def split: sum.splits)
qed

text \<open>
  With a caller's callback that appends each call's arguments to a log, one change
  event leaves exactly one entry, (event, value), in the log.
\<close>

theorem onChange_forwards_event_and_value_witness:
  "onChange \<lparr>disabled = Undefined, accounts = Obj [], label = Undefined, hint = Undefined,
             error = Undefined, value = Undefined,
             onChange_prop = Some (\<lambda>args calls. Inr (calls @ [args]))\<rparr>
     [Str ''click'', Num 1, Str ''0xAAA''] [] = Inr [[Str ''click'', Str ''0xAAA'']]"
  using onChange_forwards_event_and_value
    [of "\<lparr>disabled = Undefined, accounts = Obj [], label = Undefined, hint = Undefined,
          error = Undefined, value = Undefined,
          onChange_prop = Some (\<lambda>args calls. Inr (calls @ [args]))\<rparr>"
        "\<lambda>args calls. Inr (calls @ [args])"
        "Str ''click''" "Num 1" "Str ''0xAAA''" "[]" "[]"]
  by simp

section \<open>The option list\<close>







text \<open>
  C5. For every account record rendered as an option, with its \<open>address\<close> a string as
  the data model has it, the option is a \<open>MenuItem\<close> whose React key and whose
  selection value (the \<open>value\<close> attribute) both are that address.
\<close>

theorem option_key_and_value:
  assumes "map_of fs ''address'' = Some (Str a)"
  shows "\<exists>m. renderAccountItem st (Obj fs) = Inr m
      \<and> component_of m = Some MenuItem
      \<and> key_of m = Some a
      \<and> prop_of m ''value'' = Some (Expr (Str a))"
proof -
  from assms have "obj_get fs ''address'' = Str a"
    by (simp add: obj_get_def)
  then show ?thesis
    by (simp add: renderAccountItem_record)
qed

theorem option_key_and_value_witness:
  "\<exists>m. renderAccountItem [] (Obj [(''address'', Str ''0xAAA''), (''name'', Str ''Alice'')])
         = Inr (m :: unit node)
      \<and> component_of m = Some MenuItem
      \<and> key_of m = Some ''0xAAA''
      \<and> prop_of m ''value'' = Some (Expr (Str ''0xAAA''))"
  using option_key_and_value
    [of "[(''address'', Str ''0xAAA''), (''name'', Str ''Alice'')]" "''0xAAA''" "[]"]
  by simp

text \<open>
  C6. When \<open>accounts\<close> is the empty mapping \<open>{}\<close>, the component renders zero options
  and raises no error: \<open>renderSelectAccounts\<close> returns the empty list and \<open>render\<close>
  returns a \<open>Select\<close> without children.
\<close>

theorem empty_accounts:
  assumes "accounts p = Obj []"
  shows "renderSelectAccounts st p = Inr []
       \<and> (\<exists>sel. render st p = Inr sel \<and> children_of sel = [])"
  using assms by (simp add: renderSelectAccounts_def render_def)

theorem empty_accounts_witness:
  "renderSelectAccounts []
      (\<lparr>disabled = Undefined, accounts = Obj [], label = Undefined, hint = Undefined,
        error = Undefined, value = Undefined, onChange_prop = None\<rparr> :: unit props) = Inr []
   \<and> (\<exists>sel. render []
      (\<lparr>disabled = Undefined, accounts = Obj [], label = Undefined, hint = Undefined,
        error = Undefined, value = Undefined, onChange_prop = None\<rparr> :: unit props) = Inr sel
        \<and> children_of sel = [])"
  using empty_accounts
    [of "\<lparr>disabled = Undefined, accounts = Obj [], label = Undefined, hint = Undefined,
        error = Undefined, value = Undefined, onChange_prop = None\<rparr> :: unit props" "[]"]
  by simp

section \<open>The implementors index script\<close>

text \<open>
  C7. Once the mapping is built: if \<open>window.register_implementors\<close> holds a function,
  the script's whole effect is one call of it with the mapping as its only argument,
  on the globals as they were (the script itself does not touch
  \<open>window.pending_implementors\<close>); if it holds \<open>undefined\<close>, or any other falsy value,
  the mapping is assigned to \<open>window.pending_implementors\<close>, nothing else changes and
  nothing is called.
\<close>

theorem register_or_pending:
  "(register_implementors w = Function f \<longrightarrow>
      trait_MayPanic_js w =
        (case f [Obj implementors] (globals w) of
           Inl e \<Rightarrow> Inl e
         | Inr g \<Rightarrow> Inr (w\<lparr>globals := g\<rparr>)))
   \<and> (register_implementors w = Value v \<and> \<not> truthy v \<longrightarrow>
      trait_MayPanic_js w =
        Inr (w\<lparr>globals := (globals w)\<lparr>pending_implementors := Obj implementors\<rparr>\<rparr>))"
  by (simp add: trait_MayPanic_js_def bind_def)

text \<open>
  With a registration function that logs its calls in \<open>document\<close>, the log gets the one
  entry and \<open>pending_implementors\<close> stays \<open>undefined\<close>; with no function registered,
  \<open>pending_implementors\<close> becomes the mapping.
\<close>

theorem register_or_pending_witness:
  "trait_MayPanic_js
     \<lparr>register_implementors =
        Function (\<lambda>args g. Inr (g\<lparr>document := document g @ [args]\<rparr>)),
      globals = \<lparr>pending_implementors = Undefined, document = []\<rparr>\<rparr>
   = Inr \<lparr>register_implementors =
             Function (\<lambda>args g. Inr (g\<lparr>document := document g @ [args]\<rparr>)),
           globals = \<lparr>pending_implementors = Undefined, document = [[Obj implementors]]\<rparr>\<rparr>
   \<and> trait_MayPanic_js
     \<lparr>register_implementors = Value Undefined,
      globals = \<lparr>pending_implementors = Undefined, document = ()\<rparr>\<rparr>
   = Inr \<lparr>register_implementors = Value Undefined,
           globals = \<lparr>pending_implementors = Obj implementors, document = ()\<rparr>\<rparr>"
  using register_or_pending
    [of "\<lparr>register_implementors =
            Function (\<lambda>args g. Inr (g\<lparr>document := document g @ [args]\<rparr>)),
          globals = \<lparr>pending_implementors = Undefined, document = []\<rparr>\<rparr>"
        "\<lambda>args g. Inr (g\<lparr>document := document g @ [args]\<rparr>)" Undefined]
    register_or_pending
    [of "\<lparr>register_implementors = Value Undefined,
          globals = \<lparr>pending_implementors = Undefined, document = ()\<rparr>\<rparr>"
        "\<lambda>args g. Inr g" Undefined]
  by simp

section \<open>Props passed through, props omitted\<close>





section \<open>Keys of the collection\<close>



end
